theory Spec2Isabelle
  imports Main "HOL-Library.Word"
begin

section \<open>JavaScript strings\<close>

text \<open>
  A JavaScript string is a sequence of UTF-16 code units; indexing, \<^verbatim>\<open>length\<close>,
  \<^verbatim>\<open>includes\<close> and a regular expression without the \<^verbatim>\<open>u\<close> flag all work on code
  units. A one-character string such as \<^verbatim>\<open>'('\<close> is a list of length one. Offsets into
  the buffer are JavaScript numbers holding integers; they are modelled as \<open>int\<close>.
\<close>

type_synonym jschar = "16 word"
type_synonym jsstring = "jschar list"

definition js :: "string \<Rightarrow> jsstring" where
  "js s = map (\<lambda>c. of_char c) s"

text \<open>\<^verbatim>\<open>s[i]\<close>: the one-character string at index \<open>i\<close>, or \<^verbatim>\<open>undefined\<close> (None)
  outside the string.\<close>

definition js_index :: "jsstring \<Rightarrow> int \<Rightarrow> jsstring option" where
  "js_index s i = (if 0 \<le> i \<and> i < int (length s) then Some [s ! nat i] else None)"

text \<open>\<^verbatim>\<open>s.slice(a, b)\<close>: negative arguments count from the end, both are clipped
  to the string.\<close>

definition slice_bound :: "jsstring \<Rightarrow> int \<Rightarrow> nat" where
  "slice_bound s i =
     (if i < 0 then nat (max (int (length s) + i) 0) else nat (min i (int (length s))))"

definition slice :: "jsstring \<Rightarrow> int \<Rightarrow> int \<Rightarrow> jsstring" where
  "slice s a b = take (slice_bound s b - slice_bound s a) (drop (slice_bound s a) s)"

text \<open>\<^verbatim>\<open>s.includes(t)\<close>: \<open>t\<close> occurs in \<open>s\<close> as a contiguous run of code units.\<close>

fun js_includes :: "jsstring \<Rightarrow> jsstring \<Rightarrow> bool" where
  "js_includes [] t = (t = [])"
| "js_includes (c # s) t = (take (length t) (c # s) = t \<or> js_includes s t)"

text \<open>The class \<^verbatim>\<open>\s\<close> of a JavaScript regular expression, which is also what
  \<^verbatim>\<open>trim()\<close> strips: white space and line terminators.\<close>

definition isSpace :: "jschar \<Rightarrow> bool" where
  "isSpace c =
     (c = 0x09 \<or> c = 0x0A \<or> c = 0x0B \<or> c = 0x0C \<or> c = 0x0D \<or> c = 0x20 \<or> c = 0xA0
      \<or> c = 0x1680 \<or> (0x2000 \<le> c \<and> c \<le> 0x200A) \<or> c = 0x2028 \<or> c = 0x2029
      \<or> c = 0x202F \<or> c = 0x205F \<or> c = 0x3000 \<or> c = 0xFEFF)"

definition trim :: "jsstring \<Rightarrow> jsstring" where
  "trim s = rev (dropWhile isSpace (rev (dropWhile isSpace s)))"

text \<open>The class \<^verbatim>\<open>[a-zA-Z]\<close>.\<close>

definition isAlpha :: "jschar \<Rightarrow> bool" where
  "isAlpha c = ((0x41 \<le> c \<and> c \<le> 0x5A) \<or> (0x61 \<le> c \<and> c \<le> 0x7A))"

text \<open>\<^verbatim>\<open>/[\r\n]/\<close>: a carriage return or a line feed.\<close>

definition isLineBreak :: "jschar \<Rightarrow> bool" where
  "isLineBreak c = (c = 0x0D \<or> c = 0x0A)"

section \<open>Constants of \<^verbatim>\<open>src/abbreviation/index.ts\<close>\<close>

text \<open>\<^verbatim>\<open>const tabStop = String.fromCodePoint(0xFFFC)\<close>: one code unit.\<close>

definition tabStop :: jsstring where
  "tabStop = [0xFFFC]"

text \<open>\<^verbatim>\<open>reJSXAbbrStart = /^[a-zA-Z.#\[\(]$/\<close>\<close>

definition isJSXAbbrStartChar :: "jschar \<Rightarrow> bool" where
  "isJSXAbbrStartChar c = (isAlpha c \<or> c \<in> set (js ''.#[(''))"

definition reJSXAbbrStart :: "jsstring \<Rightarrow> bool" where
  "reJSXAbbrStart s = (case s of [c] \<Rightarrow> isJSXAbbrStartChar c | _ \<Rightarrow> False)"

text \<open>\<^verbatim>\<open>reWordBound = /^[\s>;"\']?[a-zA-Z.#!@\[\(]$/\<close>\<close>

definition isWordBoundChar :: "jschar \<Rightarrow> bool" where
  "isWordBoundChar c = (isSpace c \<or> c = 0x3E \<or> c = 0x3B \<or> c = 0x22 \<or> c = 0x27)"

definition isAbbrStartChar :: "jschar \<Rightarrow> bool" where
  "isAbbrStartChar c = (isAlpha c \<or> c \<in> set (js ''.#!@[(''))"

definition reWordBound :: "jsstring \<Rightarrow> bool" where
  "reWordBound s =
     (case s of
        [c] \<Rightarrow> isAbbrStartChar c
      | [b, c] \<Rightarrow> isWordBoundChar b \<and> isAbbrStartChar c
      | _ \<Rightarrow> False)"

text \<open>\<^verbatim>\<open>reStylesheetWordBound = /^[\s;]?[a-zA-Z!@]$/\<close>\<close>

definition isStylesheetAbbrStartChar :: "jschar \<Rightarrow> bool" where
  "isStylesheetAbbrStartChar c = (isAlpha c \<or> c = 0x21 \<or> c = 0x40)"

definition reStylesheetWordBound :: "jsstring \<Rightarrow> bool" where
  "reStylesheetWordBound s =
     (case s of
        [c] \<Rightarrow> isStylesheetAbbrStartChar c
      | [b, c] \<Rightarrow> (isSpace b \<or> b = 0x3B) \<and> isStylesheetAbbrStartChar c
      | _ \<Rightarrow> False)"

text \<open>\<^verbatim>\<open>pairs\<close> maps an opening character to its closer; \<^verbatim>\<open>pairsEnd\<close> collects the
  closers in key order.\<close>

definition pairs :: "(jsstring \<times> jsstring) list" where
  "pairs = [(js ''{'', js ''}''), (js ''['', js '']''), (js ''('', js '')'')]"

definition pairsEnd :: "jsstring list" where
  "pairsEnd = map snd pairs"

section \<open>Data model\<close>

text \<open>Tokens and contexts of the external structural parsers (\<^verbatim>\<open>@emmetio/css-matcher\<close>,
  \<^verbatim>\<open>@emmetio/action-utils\<close>, \<^verbatim>\<open>@emmetio/html-matcher\<close>), with the fields this file
  reads.\<close>

datatype TokenType = Selector | PropertyName | PropertyValue | BlockEnd

record CSSMatch =
  css_name :: jsstring
  css_type :: TokenType
  css_range :: "int \<times> int"

record CSSContext =
  css_ancestors :: "CSSMatch list"
  css_current :: "CSSMatch option"
  css_inline :: bool

record ContextTag =
  tag_name :: jsstring
  tag_range :: "int \<times> int"

record HTMLContext =
  html_ancestors :: "ContextTag list"
  html_current :: "ContextTag option"
  html_css :: "CSSContext option"

record AttributeToken =
  attr_name :: jsstring
  attr_value :: "jsstring option"

text \<open>\<^verbatim>\<open>UserConfig\<close> and \<^verbatim>\<open>AbbreviationContext\<close> of the \<^verbatim>\<open>emmet\<close> package. The output
  options are opaque here: the type variable \<open>'o\<close>.\<close>

datatype SyntaxType = markup | stylesheet

record AbbreviationContext =
  ctx_name :: jsstring
  ctx_attributes :: "(jsstring \<rightharpoonup> jsstring) option"

record 'o UserConfig =
  cfg_syntax :: jsstring
  cfg_type :: SyntaxType
  cfg_context :: "AbbreviationContext option"
  cfg_options :: 'o

text \<open>\<^verbatim>\<open>CSSAbbreviationScope\<close> of the \<^verbatim>\<open>emmet\<close> package: the scope markers.\<close>

definition CSSAbbreviationScope_Global :: jsstring where
  "CSSAbbreviationScope_Global = js ''@@global''"

definition CSSAbbreviationScope_Section :: jsstring where
  "CSSAbbreviationScope_Section = js ''@@section''"

text \<open>The parse result a tracker holds: \<^verbatim>\<open>{ type: 'valid', abbr, preview }\<close> or
  \<^verbatim>\<open>{ type: 'error', abbr, error: { pos, message } }\<close>.\<close>

datatype ParseResult =
  Valid (abbr: jsstring) (preview: jsstring)
| Error (abbr: jsstring) (error_pos: int) (error_message: jsstring)

text \<open>The tracked abbreviation: \<^verbatim>\<open>range\<close>, \<^verbatim>\<open>forced\<close>, \<^verbatim>\<open>offset\<close>, \<^verbatim>\<open>abbreviation\<close>
  (absent when nothing was parsed) and the activation options (\<^verbatim>\<open>options\<close> in the source).\<close>

record 'o AbbreviationTracker =
  tr_range :: "int \<times> int"
  forced :: bool
  offset :: int
  tr_abbreviation :: "ParseResult option"
  activationOptions :: "'o UserConfig option"

text \<open>The editor: its buffer, its caret and the syntax name of its document.\<close>

record TextEditor =
  content :: jsstring
  caret :: int
  document_syntax :: jsstring

record ExtractedAbbreviation =
  ex_start :: int
  ex_end :: int
  ex_abbr :: jsstring

record CompletionContext =
  position :: int

text \<open>An exception thrown by an external query.\<close>

datatype js_error = Thrown string

text \<open>The parameters \<^verbatim>\<open>{ offset, options, forced? }\<close> of \<^verbatim>\<open>startTracking\<close>.\<close>

record 'o StartTrackingParams =
  p_offset :: int
  p_options :: "'o UserConfig option"
  p_forced :: "bool option"

section \<open>External collaborators\<close>

text \<open>
  What this file imports and the sources do not hold is a parameter of the model:
  the configuration flag \<^verbatim>\<open>emmet.enable-completions\<close> as it reads when it is asked for,
  the syntax classifier (\<^verbatim>\<open>lib/syntax\<close>), \<^verbatim>\<open>JSX_PREFIX\<close> and \<^verbatim>\<open>extract\<close>
  (\<^verbatim>\<open>lib/emmet\<close>), \<^verbatim>\<open>attributeValue\<close> (\<^verbatim>\<open>lib/utils\<close>), \<^verbatim>\<open>getOutputOptions\<close>
  (\<^verbatim>\<open>lib/output\<close>), the structural queries \<^verbatim>\<open>getCSSContext\<close> and \<^verbatim>\<open>getHTMLContext\<close>,
  which may throw, the attribute scanner \<^verbatim>\<open>attributes\<close>, and from
  \<^verbatim>\<open>./AbbreviationTracker\<close> the parser that fills a tracker's \<^verbatim>\<open>abbreviation\<close> and
  \<^verbatim>\<open>handleChange\<close>.
\<close>

record 'o host =
  enable_completions :: bool
  docSyntax :: "TextEditor \<Rightarrow> jsstring"
  isSupported :: "jsstring \<Rightarrow> bool"
  isJSX :: "jsstring \<Rightarrow> bool"
  isCSS :: "jsstring \<Rightarrow> bool"
  isHTML :: "jsstring \<Rightarrow> bool"
  isXML :: "jsstring \<Rightarrow> bool"
  JSX_PREFIX :: jsstring
  emmet_extract :: "jsstring \<Rightarrow> int \<Rightarrow> jsstring \<Rightarrow> jsstring \<Rightarrow> ExtractedAbbreviation option"
  attributeValue :: "AttributeToken \<Rightarrow> jsstring option"
  getOutputOptions :: "TextEditor \<Rightarrow> int \<Rightarrow> bool option \<Rightarrow> 'o"
  getCSSContext :: "jsstring \<Rightarrow> int \<Rightarrow> js_error + CSSContext"
  getHTMLContext :: "jsstring \<Rightarrow> int \<Rightarrow> bool \<Rightarrow> js_error + HTMLContext"
  attributes :: "jsstring \<Rightarrow> jsstring \<Rightarrow> AttributeToken list"
  parseAbbreviation :: "jsstring \<Rightarrow> 'o UserConfig option \<Rightarrow> ParseResult option"
  handleChange :: "TextEditor \<Rightarrow> 'o AbbreviationTracker option \<Rightarrow> 'o AbbreviationTracker option"

text \<open>Modelled from the spec: \<^verbatim>\<open>getCaret\<close> of \<^verbatim>\<open>lib/utils\<close>, which the sources do not
  hold. The buffer query interface has \<^verbatim>\<open>caret(editor) -> offset\<close>.\<close>

definition getCaret :: "TextEditor \<Rightarrow> int" where
  "getCaret editor = caret editor"

text \<open>Modelled from the spec: \<^verbatim>\<open>getContent\<close> of \<^verbatim>\<open>lib/utils\<close>, which the sources do
  not hold. The buffer query interface has \<^verbatim>\<open>content(editor) -> text\<close>.\<close>

definition getContent :: "TextEditor \<Rightarrow> jsstring" where
  "getContent editor = content editor"

text \<open>Modelled from the spec: \<^verbatim>\<open>substr\<close> of \<^verbatim>\<open>lib/utils\<close>, which the sources do not
  hold. The buffer query interface has \<^verbatim>\<open>substring(editor, [from,to)) -> text\<close>: the
  text of the half-open range, as far as the buffer reaches.\<close>

definition substr :: "TextEditor \<Rightarrow> int \<times> int \<Rightarrow> jsstring" where
  "substr editor r = take (nat (snd r) - nat (fst r)) (drop (nat (fst r)) (content editor))"

text \<open>Modelled from the spec: \<^verbatim>\<open>startTracking\<close> of \<^verbatim>\<open>./AbbreviationTracker\<close>, which the
  sources do not hold: \<^verbatim>\<open>startTracking(editor, start, end, {offset, options, forced?}) ->
  TrackedAbbreviation\<close>. The record it returns spans \<open>[start, end)\<close>, is forced only on
  request, and parses the text of its range after the \<open>offset\<close> prefix characters, which
  belong to the span and not to the abbreviation text.\<close>

definition startTracking ::
  "'o host \<Rightarrow> TextEditor \<Rightarrow> int \<Rightarrow> int \<Rightarrow> 'o StartTrackingParams \<Rightarrow> 'o AbbreviationTracker"
where
  "startTracking h editor start endPos params =
     \<lparr>tr_range = (start, endPos),
      forced = (case p_forced params of Some f \<Rightarrow> f | None \<Rightarrow> False),
      offset = p_offset params,
      tr_abbreviation =
        parseAbbreviation h (drop (nat (p_offset params)) (substr editor (start, endPos)))
          (p_options params),
      activationOptions = p_options params\<rparr>"

section \<open>The functions of \<^verbatim>\<open>src/abbreviation/index.ts\<close>\<close>

text \<open>\<^verbatim>\<open>last(arr)\<close>: the last element, \<^verbatim>\<open>undefined\<close> for an empty array.\<close>

definition last_of :: "'a list \<Rightarrow> 'a option" where
  "last_of arr = (if length arr > 0 then Some (arr ! (length arr - 1)) else None)"

text \<open>\<^verbatim>\<open>isEnabled()\<close> reads the configuration flag.\<close>

definition isEnabled :: "'o host \<Rightarrow> bool" where
  "isEnabled h = enable_completions h"

definition allowTracking :: "'o host \<Rightarrow> TextEditor \<Rightarrow> int \<Rightarrow> bool" where
  "allowTracking h editor pos =
     (if isEnabled h then
        (let syn = docSyntax h editor in isSupported h syn \<or> isJSX h syn)
      else False)"

subsection \<open>Stylesheet context\<close>

definition getCSSAbbreviationContext :: "CSSContext \<Rightarrow> jsstring" where
  "getCSSAbbreviationContext ctx =
     (let parent = last_of (css_ancestors ctx) in
      case css_current ctx of
        Some current \<Rightarrow>
          (if css_type current = PropertyValue \<and> parent \<noteq> None then css_name (the parent)
           else if css_type current = Selector \<and> parent = None then CSSAbbreviationScope_Section
           else CSSAbbreviationScope_Global)
      | None \<Rightarrow> CSSAbbreviationScope_Global)"

text \<open>\<^verbatim>\<open>substr(editor, current.range).split(/[\n\r]/)[0]\<close> is the text up to the first
  line break.\<close>

definition isTypingBeforeSelector :: "TextEditor \<Rightarrow> int \<Rightarrow> CSSContext \<Rightarrow> bool" where
  "isTypingBeforeSelector editor pos ctx =
     (case css_current ctx of
        Some current \<Rightarrow>
          (if css_type current = Selector \<and> fst (css_range current) = pos - 1 then
             (let line = takeWhile (\<lambda>c. \<not> isLineBreak c) (substr editor (css_range current))
              in length (trim line) = 1)
           else False)
      | None \<Rightarrow> False)"

definition getCSSActivationContext ::
  "'o host \<Rightarrow> TextEditor \<Rightarrow> int \<Rightarrow> jsstring \<Rightarrow> CSSContext \<Rightarrow> 'o UserConfig option"
where
  "getCSSActivationContext h editor pos syn ctx =
     (case css_current ctx of
        None \<Rightarrow> None
      | Some current \<Rightarrow>
          (let allowedContext =
                 (css_type current = PropertyName
                  \<or> css_type current = PropertyValue
                  \<or> isTypingBeforeSelector editor pos ctx)
           in if allowedContext then
                Some \<lparr>cfg_syntax = syn,
                      cfg_type = stylesheet,
                      cfg_context =
                        Some \<lparr>ctx_name = getCSSAbbreviationContext ctx, ctx_attributes = None\<rparr>,
                      cfg_options = getOutputOptions h editor pos (Some (css_inline ctx))\<rparr>
              else None))"

subsection \<open>Markup context\<close>

text \<open>The attribute map is filled in order, a later attribute of the same name
  replacing an earlier one; \<^verbatim>\<open>attributeValue(attr) || ''\<close> is the empty string for a
  missing or empty value.\<close>

definition parentAttributes :: "'o host \<Rightarrow> jsstring \<Rightarrow> ContextTag \<Rightarrow> AttributeToken list" where
  "parentAttributes h code parent =
     attributes h (slice code (fst (tag_range parent)) (snd (tag_range parent))) (tag_name parent)"

definition getMarkupAbbreviationContext ::
  "'o host \<Rightarrow> jsstring \<Rightarrow> HTMLContext \<Rightarrow> AbbreviationContext option"
where
  "getMarkupAbbreviationContext h code ctx =
     (case last_of (html_ancestors ctx) of
        Some parent \<Rightarrow>
          Some \<lparr>ctx_name = tag_name parent,
                ctx_attributes =
                  Some (fold (\<lambda>attr attrs.
                               attrs(attr_name attr \<mapsto>
                                 (case attributeValue h attr of Some v \<Rightarrow> v | None \<Rightarrow> [])))
                          (parentAttributes h code parent) Map.empty)\<rparr>
      | None \<Rightarrow> None)"

text \<open>The loop of \<^verbatim>\<open>getEmbeddedStyleSyntax\<close> returns at the first attribute named
  \<^verbatim>\<open>type\<close>, with whatever \<^verbatim>\<open>attributeValue\<close> gives for it.\<close>

fun firstTypeAttribute :: "'o host \<Rightarrow> AttributeToken list \<Rightarrow> jsstring option" where
  "firstTypeAttribute h [] = None"
| "firstTypeAttribute h (attr # rest) =
     (if attr_name attr = js ''type'' then attributeValue h attr
      else firstTypeAttribute h rest)"

definition getEmbeddedStyleSyntax :: "'o host \<Rightarrow> jsstring \<Rightarrow> HTMLContext \<Rightarrow> jsstring option" where
  "getEmbeddedStyleSyntax h code ctx =
     (case last_of (html_ancestors ctx) of
        Some parent \<Rightarrow>
          (if tag_name parent = js ''style''
           then firstTypeAttribute h (parentAttributes h code parent)
           else None)
      | None \<Rightarrow> None)"

text \<open>\<^verbatim>\<open>a || b\<close> on an optional string: \<open>b\<close> when \<open>a\<close> is \<^verbatim>\<open>undefined\<close> or empty.\<close>

definition or_else :: "jsstring option \<Rightarrow> jsstring \<Rightarrow> jsstring" where
  "or_else a b = (case a of Some s \<Rightarrow> (if s = [] then b else s) | None \<Rightarrow> b)"

subsection \<open>Activation context\<close>

text \<open>The structural queries are called with no handler around them: what they throw
  leaves \<^verbatim>\<open>getActivationContext\<close> (\<open>Inl\<close>).\<close>

definition getActivationContext ::
  "'o host \<Rightarrow> TextEditor \<Rightarrow> int \<Rightarrow> js_error + 'o UserConfig option"
where
  "getActivationContext h editor pos =
     (let syn = docSyntax h editor in
      if isCSS h syn then
        (case getCSSContext h (getContent editor) pos of
           Inl e \<Rightarrow> Inl e
         | Inr ctx \<Rightarrow> Inr (getCSSActivationContext h editor pos syn ctx))
      else if isHTML h syn then
        (let code = getContent editor in
         case getHTMLContext h code pos (isXML h syn) of
           Inl e \<Rightarrow> Inl e
         | Inr ctx \<Rightarrow>
             (case html_css ctx of
                Some css \<Rightarrow>
                  Inr (getCSSActivationContext h editor pos
                         (or_else (getEmbeddedStyleSyntax h code ctx) syn) css)
              | None \<Rightarrow>
                  (if html_current ctx = None then
                     Inr (Some \<lparr>cfg_syntax = syn,
                                cfg_type = markup,
                                cfg_context = getMarkupAbbreviationContext h code ctx,
                                cfg_options = getOutputOptions h editor pos None\<rparr>)
                   else Inr None)))
      else Inr None)"

subsection \<open>Starting to track\<close>

text \<open>The first part of \<^verbatim>\<open>startAbbreviationTracking\<close> (lines 102 to 116) looks for the
  start of a span in the window \<open>prefix\<close> of at most two characters before \<open>pos\<close>: it gives
  \<open>start\<close>, which stays \<open>-1\<close> when there is none, and \<open>offset\<close>.
  \<^verbatim>\<open>prefix[0] === JSX_PREFIX\<close> compares a one-character string with the trigger;
  \<^verbatim>\<open>reJSXAbbrStart.test(prefix[1])\<close> is reached only when \<^verbatim>\<open>prefix[1]\<close> exists.\<close>

definition detectStart :: "'o host \<Rightarrow> TextEditor \<Rightarrow> int \<Rightarrow> int \<times> int" where
  "detectStart h editor pos =
     (let prefix = substr editor (max 0 (pos - 2), pos);
          syn = docSyntax h editor
      in if isJSX h syn then
           (if length prefix = 2 \<and> js_index prefix 0 = Some (JSX_PREFIX h)
               \<and> (case js_index prefix 1 of Some ch \<Rightarrow> reJSXAbbrStart ch | None \<Rightarrow> False)
            then (pos - 2, int (length (JSX_PREFIX h)))
            else (-1, 0))
         else if reWordBound prefix then (pos - 1, 0)
         else (-1, 0))"

text \<open>The check for a paired character (lines 119 to 123): \<^verbatim>\<open>lastCh in pairs\<close> holds for
  the three keys of \<^verbatim>\<open>pairs\<close> only, and then the text of \<open>[pos, pos + 1)\<close> is compared
  with the closer.\<close>

definition pairedEnd :: "TextEditor \<Rightarrow> int \<Rightarrow> jsstring \<Rightarrow> int" where
  "pairedEnd editor pos prefix =
     (case js_index prefix (int (length prefix) - 1) of
        Some lastCh \<Rightarrow>
          (case map_of pairs lastCh of
             Some closer \<Rightarrow> (if substr editor (pos, pos + 1) = closer then pos + 1 else pos)
           | None \<Rightarrow> pos)
      | None \<Rightarrow> pos)"

definition startAbbreviationTracking ::
  "'o host \<Rightarrow> TextEditor \<Rightarrow> int \<Rightarrow> js_error + 'o AbbreviationTracker option"
where
  "startAbbreviationTracking h editor pos =
     (let prefix = substr editor (max 0 (pos - 2), pos);
          (start, offs) = detectStart h editor pos
      in if start \<ge> 0 then
           (let endPos = pairedEnd editor pos prefix in
            case getActivationContext h editor pos of
              Inl e \<Rightarrow> Inl e
            | Inr None \<Rightarrow> Inr None
            | Inr (Some opts) \<Rightarrow>
                (if cfg_type opts = stylesheet \<and> \<not> reStylesheetWordBound prefix then Inr None
                 else Inr (Some (startTracking h editor start endPos
                                   \<lparr>p_offset = offs, p_options = Some opts, p_forced = None\<rparr>))))
         else Inr None)"

subsection \<open>Tracking from a completion context\<close>

definition extractTracker ::
  "'o host \<Rightarrow> TextEditor \<Rightarrow> CompletionContext \<Rightarrow> js_error + 'o AbbreviationTracker option"
where
  "extractTracker h editor ctx =
     (let syn = document_syntax editor;
          prefix = (if isJSX h syn then JSX_PREFIX h else []);
          extracted = emmet_extract h (getContent editor) (position ctx) syn prefix
      in case extracted of
           Some a \<Rightarrow>
             (case getActivationContext h editor (ex_start a + 1) of
                Inl e \<Rightarrow> Inl e
              | Inr opts \<Rightarrow>
                  Inr (Some (startTracking h editor (ex_start a) (ex_end a)
                               \<lparr>p_offset = int (length prefix), p_options = opts,
                                p_forced = None\<rparr>)))
         | None \<Rightarrow> Inr None)"

subsection \<open>Stopping\<close>

text \<open>The loop of \<^verbatim>\<open>shouldStopTracking\<close>: \<open>targetPos\<close> moves back from the end of the
  range while it is beyond \<open>start\<close> and \<^verbatim>\<open>abbr[targetPos - start - 1]\<close> is one of
  \<^verbatim>\<open>pairsEnd\<close>; an index outside \<open>abbr\<close> reads \<^verbatim>\<open>undefined\<close>, which is none of them.\<close>

function walkTargetPos :: "jsstring \<Rightarrow> int \<Rightarrow> int \<Rightarrow> int" where
  "walkTargetPos a start targetPos =
     (if targetPos > start then
        (case js_index a (targetPos - start - 1) of
           Some ch \<Rightarrow>
             (if ch \<in> set pairsEnd then walkTargetPos a start (targetPos - 1) else targetPos)
         | None \<Rightarrow> targetPos)
      else targetPos)"
  by pat_completeness auto
termination
  by (relation "measure (\<lambda>(a, start, targetPos). nat (targetPos - start))") auto

declare walkTargetPos.simps [simp del]

definition shouldStopTracking :: "'o AbbreviationTracker \<Rightarrow> int \<Rightarrow> bool" where
  "shouldStopTracking tracker pos =
     (if forced tracker then False
      else case tr_abbreviation tracker of
        None \<Rightarrow> True
      | Some parsed \<Rightarrow>
          (if list_ex isLineBreak (abbr parsed) \<or> js_includes (abbr parsed) tabStop then True
           else case parsed of
             Error a epos msg \<Rightarrow>
               (if snd (tr_range tracker) = pos then True
                else if epos = 0 then True
                else walkTargetPos a (fst (tr_range tracker)) (snd (tr_range tracker)) = pos)
           | Valid a pv \<Rightarrow> False))"

subsection \<open>The editor's events\<close>

text \<open>\<^verbatim>\<open>initAbbreviationTracker\<close> keeps \<open>lastPos\<close> in its closure; the tracker of the
  editor lives in \<^verbatim>\<open>./AbbreviationTracker\<close>. Both make up the state of one editor.\<close>

record 'o tracking_state =
  lastPos :: "int option"
  tracked :: "'o AbbreviationTracker option"

text \<open>Modelled from the spec: \<^verbatim>\<open>stopTracking\<close> of \<^verbatim>\<open>./AbbreviationTracker\<close>, which the
  sources do not hold: an explicit stop discards the tracked record.\<close>

definition stopTracking :: "'o tracking_state \<Rightarrow> 'o tracking_state" where
  "stopTracking st = st\<lparr>tracked := None\<rparr>"

text \<open>The change handler (lines 34 to 47). Modelled from the spec for the part of
  \<^verbatim>\<open>./AbbreviationTracker\<close> it calls: \<^verbatim>\<open>handleChange\<close> re-parses the tracked span and
  what it returns is the editor's tracker from then on, and \<^verbatim>\<open>startTracking\<close> replaces
  that tracker. An exception of a structural query ends the handler where it stands.\<close>

definition onDidChange ::
  "'o host \<Rightarrow> TextEditor \<Rightarrow> 'o tracking_state \<Rightarrow> js_error option \<times> 'o tracking_state"
where
  "onDidChange h ed st =
     (let pos = getCaret ed;
          tracker = handleChange h ed (tracked st);
          st1 = st\<lparr>tracked := tracker\<rparr>
      in case (if tracker = None \<and> lastPos st \<noteq> None \<and> lastPos st = Some (pos - 1)
                  \<and> allowTracking h ed pos
               then startAbbreviationTracking h ed pos
               else Inr tracker) of
           Inl e \<Rightarrow> (Some e, st1)
         | Inr tracker' \<Rightarrow>
             (let st2 = st1\<lparr>tracked := tracker'\<rparr>;
                  st3 = (case tracker' of
                           Some t \<Rightarrow> (if shouldStopTracking t pos then stopTracking st2 else st2)
                         | None \<Rightarrow> st2)
              in (None, st3\<lparr>lastPos := Some pos\<rparr>)))"

text \<open>The selection handler (lines 49 to 53).\<close>

definition onDidChangeSelection ::
  "'o host \<Rightarrow> TextEditor \<Rightarrow> 'o tracking_state \<Rightarrow> 'o tracking_state"
where
  "onDidChangeSelection h ed st =
     (if isEnabled h then st\<lparr>lastPos := Some (getCaret ed)\<rparr> else st)"

section \<open>Reference definitions\<close>



text \<open>The value of the \<^verbatim>\<open>type\<close> attribute of the enclosing \<^verbatim>\<open>style\<close> element: the
  nearest ancestor when it is named \<^verbatim>\<open>style\<close>, its first attribute named \<^verbatim>\<open>type\<close>, and
  what \<^verbatim>\<open>attributeValue\<close> reads from it.\<close>

definition styleTypeAttribute :: "'o host \<Rightarrow> jsstring \<Rightarrow> HTMLContext \<Rightarrow> jsstring option" where
  "styleTypeAttribute h code ctx =
     (if html_ancestors ctx \<noteq> [] \<and> tag_name (last (html_ancestors ctx)) = js ''style'' then
        (case find (\<lambda>attr. attr_name attr = js ''type'')
                (parentAttributes h code (last (html_ancestors ctx))) of
           Some attr \<Rightarrow> attributeValue h attr
         | None \<Rightarrow> None)
      else None)"

section \<open>Sample inputs\<close>

text \<open>A tracker started by typing, with an error parse of the text \<open>a\<close> failing at \<open>epos\<close>.\<close>

definition errorTracker :: "int \<times> int \<Rightarrow> int \<Rightarrow> jsstring \<Rightarrow> int \<Rightarrow> unit AbbreviationTracker" where
  "errorTracker r offs a epos =
     \<lparr>tr_range = r, forced = False, offset = offs,
      tr_abbreviation = Some (Error a epos (js ''Unexpected character'')),
      activationOptions = None\<rparr>"

text \<open>An editor over a text of ASCII characters.\<close>

definition editorOf :: "string \<Rightarrow> int \<Rightarrow> string \<Rightarrow> TextEditor" where
  "editorOf buf pos syn = \<lparr>content = js buf, caret = pos, document_syntax = js syn\<rparr>"

text \<open>Stand-ins for the external collaborators: the structural queries answer with the
  given results, \<^verbatim>\<open>html\<close> and \<^verbatim>\<open>jsx\<close> are markup, \<^verbatim>\<open>css\<close> is a stylesheet, the JSX
  trigger is \<^verbatim>\<open><\<close>, and no attribute is found unless the scanner is replaced.\<close>

definition demo_host :: "(js_error + CSSContext) \<Rightarrow> (js_error + HTMLContext) \<Rightarrow> unit host" where
  "demo_host css_result html_result =
     \<lparr>enable_completions = True,
      docSyntax = document_syntax,
      isSupported = (\<lambda>s. s = js ''html'' \<or> s = js ''css''),
      isJSX = (\<lambda>s. s = js ''jsx''),
      isCSS = (\<lambda>s. s = js ''css''),
      isHTML = (\<lambda>s. s = js ''html'' \<or> s = js ''jsx''),
      isXML = (\<lambda>s. False),
      JSX_PREFIX = js ''<'',
      emmet_extract = (\<lambda>code pos syn prefix. None),
      attributeValue = attr_value,
      getOutputOptions = (\<lambda>editor pos inline. ()),
      getCSSContext = (\<lambda>code pos. css_result),
      getHTMLContext = (\<lambda>code pos xml. html_result),
      attributes = (\<lambda>code name. []),
      parseAbbreviation = (\<lambda>a opts. Some (Valid a [])),
      handleChange = (\<lambda>editor t. t)\<rparr>"

definition not_queried :: "js_error + 'a" where
  "not_queried = Inl (Thrown ''not queried'')"

text \<open>Stylesheet contexts: the value \<^verbatim>\<open>red\<close> of \<^verbatim>\<open>color\<close> in \<^verbatim>\<open>a{color:red}\<close>; the selector
  \<^verbatim>\<open>b\<close> alone in the buffer; the selector \<^verbatim>\<open>b\<close> in the body of \<^verbatim>\<open>a\<close> in \<^verbatim>\<open>a{b}\<close>.\<close>

definition value_context :: CSSContext where
  "value_context =
     \<lparr>css_ancestors = [\<lparr>css_name = js ''a'', css_type = Selector, css_range = (0, 12)\<rparr>,
                       \<lparr>css_name = js ''color'', css_type = PropertyName, css_range = (2, 7)\<rparr>],
      css_current = Some \<lparr>css_name = js ''red'', css_type = PropertyValue, css_range = (8, 11)\<rparr>,
      css_inline = False\<rparr>"

definition top_selector :: CSSContext where
  "top_selector =
     \<lparr>css_ancestors = [],
      css_current = Some \<lparr>css_name = js ''b'', css_type = Selector, css_range = (0, 1)\<rparr>,
      css_inline = False\<rparr>"

definition nested_selector :: CSSContext where
  "nested_selector =
     \<lparr>css_ancestors = [\<lparr>css_name = js ''a'', css_type = Selector, css_range = (0, 4)\<rparr>],
      css_current = Some \<lparr>css_name = js ''b'', css_type = Selector, css_range = (2, 3)\<rparr>,
      css_inline = False\<rparr>"

text \<open>Markup contexts: between elements at the top of the document; inside a tag; and
  in \<^verbatim>\<open><style>p</style>\<close> after the \<^verbatim>\<open>p\<close>, where the query reports a stylesheet context.\<close>

definition between_tags :: HTMLContext where
  "between_tags = \<lparr>html_ancestors = [], html_current = None, html_css = None\<rparr>"

definition inside_tag :: HTMLContext where
  "inside_tag =
     \<lparr>html_ancestors = [],
      html_current = Some \<lparr>tag_name = js ''div'', tag_range = (0, 5)\<rparr>,
      html_css = None\<rparr>"

definition style_element :: HTMLContext where
  "style_element =
     \<lparr>html_ancestors = [\<lparr>tag_name = js ''style'', tag_range = (0, 7)\<rparr>],
      html_current = None,
      html_css =
        Some \<lparr>css_ancestors = [],
              css_current = Some \<lparr>css_name = js ''p'', css_type = Selector, css_range = (7, 8)\<rparr>,
              css_inline = False\<rparr>\<rparr>"

text \<open>The same in \<^verbatim>\<open><style type=scss>p</style>\<close>, and collaborators whose attribute
  scanner reads the \<^verbatim>\<open>type\<close> attribute of that tag.\<close>

definition typed_style_element :: HTMLContext where
  "typed_style_element =
     \<lparr>html_ancestors = [\<lparr>tag_name = js ''style'', tag_range = (0, 17)\<rparr>],
      html_current = None,
      html_css =
        Some \<lparr>css_ancestors = [],
              css_current = Some \<lparr>css_name = js ''p'', css_type = Selector, css_range = (17, 18)\<rparr>,
              css_inline = False\<rparr>\<rparr>"

definition style_host :: "HTMLContext \<Rightarrow> unit host" where
  "style_host ctx =
     (demo_host not_queried (Inr ctx))
       \<lparr>attributes :=
          (\<lambda>code name.
             if code = js ''<style type=scss>''
             then [\<lparr>attr_name = js ''type'', attr_value = Some (js ''scss'')\<rparr>] else [])\<rparr>"

section \<open>Properties of the stop condition\<close>

lemma js_includes_single: "js_includes s [c] = (c \<in> set s)"
  by (induction s) auto

lemma list_ex_isLineBreak: "list_ex isLineBreak s = (0x0D \<in> set s \<or> 0x0A \<in> set s)"
  by (auto simp: list_ex_iff isLineBreak_def)




text \<open>Beyond the end of the text the loop does not move: the first index it reads
  is outside the text.\<close>

lemma walkTargetPos_beyond:
  assumes "int (length a) < e - s"
  shows "walkTargetPos a s e = e"
  using assms by (subst walkTargetPos.simps) (simp add: js_index_def)

text \<open>When the range is longer than the text, as it is with a prefix before the text,
  only the first two tests can stop the tracking.\<close>

lemma shouldStopTracking_error_longer_range:
  assumes "\<not> forced t"
    and "tr_abbreviation t = Some (Error a epos msg)"
    and "\<not> list_ex isLineBreak a" and "\<not> js_includes a tabStop"
    and "int (length a) < snd (tr_range t) - fst (tr_range t)"
  shows "shouldStopTracking t pos \<longleftrightarrow> (pos = snd (tr_range t) \<or> epos = 0)"
proof -
  have "walkTargetPos a (fst (tr_range t)) (snd (tr_range t)) = snd (tr_range t)"
    using assms(5) by (rule walkTargetPos_beyond)
  then show ?thesis
    using assms(1-4) by (auto simp: shouldStopTracking_def)
qed




text \<open>
  C5. For a tracker with \<open>forced\<close> set, \<^verbatim>\<open>shouldStopTracking\<close> is false at every caret:
  whatever the parse result, whatever the text, and also when nothing was parsed.
\<close>

theorem shouldStopTracking_forced:
  assumes "forced t"
  shows "shouldStopTracking t pos = False"
  using assms by (simp add: shouldStopTracking_def)

text \<open>A forced tracker with an error parse, one whose text spans two lines, and one
  with no abbreviation.\<close>

theorem shouldStopTracking_forced_witness:
  "shouldStopTracking ((errorTracker (0, 3) 0 (js ''a$)'') 1)\<lparr>forced := True\<rparr>) 3 = False
   \<and> shouldStopTracking
        ((errorTracker (0, 3) 0 (js ''a'' @ [0x0A] @ js ''b'') 0)\<lparr>forced := True\<rparr>) 1 = False
   \<and> shouldStopTracking
        ((errorTracker (0, 3) 0 [] 0)\<lparr>forced := True, tr_abbreviation := None\<rparr>) 5 = False"
proof -
  have h: "forced (t\<lparr>forced := True\<rparr>)" for t :: "unit AbbreviationTracker"
    by simp
  show ?thesis
    using shouldStopTracking_forced [OF h, of "errorTracker (0, 3) 0 (js ''a$)'') 1" 3]
      shouldStopTracking_forced [OF h, of "errorTracker (0, 3) 0 (js ''a'' @ [0x0A] @ js ''b'') 0" 1]
      shouldStopTracking_forced [of "(errorTracker (0, 3) 0 [] 0)\<lparr>forced := True, tr_abbreviation := None\<rparr>" 5]
    by simp
qed

text \<open>
  C6. For a tracker that is not forced and whose abbreviation text contains a carriage
  return, a line feed or the tab-stop sentinel (code unit 0xFFFC),
  \<^verbatim>\<open>shouldStopTracking\<close> is true at every caret, for a valid parse and for an error
  parse alike.
\<close>

theorem shouldStopTracking_linebreak_tabstop:
  assumes "\<not> forced t"
    and "tr_abbreviation t = Some parsed"
    and "0x0D \<in> set (abbr parsed) \<or> 0x0A \<in> set (abbr parsed) \<or> 0xFFFC \<in> set (abbr parsed)"
  shows "shouldStopTracking t pos = True"
  using assms
  by (auto simp: shouldStopTracking_def list_ex_isLineBreak tabStop_def js_includes_single)

text \<open>A valid parse whose text holds the sentinel, and an error parse over two lines,
  with the caret inside the range.\<close>

theorem shouldStopTracking_linebreak_tabstop_witness:
  "shouldStopTracking
     ((errorTracker (0, 3) 0 [] 0)
        \<lparr>tr_abbreviation := Some (Valid (js ''p'' @ [0xFFFC] @ js ''q'') (js ''<p></p>''))\<rparr>) 1 = True
   \<and> shouldStopTracking (errorTracker (0, 3) 0 (js ''a'' @ [0x0A] @ js ''b'') 2) 1 = True"
proof -
  let ?t1 = "(errorTracker (0, 3) 0 [] 0)
        \<lparr>tr_abbreviation := Some (Valid (js ''p'' @ [0xFFFC] @ js ''q'') (js ''<p></p>''))\<rparr>"
  let ?t2 = "errorTracker (0, 3) 0 (js ''a'' @ [0x0A] @ js ''b'') 2"
  have a1: "\<not> forced ?t1" and a2: "\<not> forced ?t2"
    by (simp_all add: errorTracker_def)
  have b1: "tr_abbreviation ?t1 = Some (Valid (js ''p'' @ [0xFFFC] @ js ''q'') (js ''<p></p>''))"
    by simp
  have b2: "tr_abbreviation ?t2 =
              Some (Error (js ''a'' @ [0x0A] @ js ''b'') 2 (js ''Unexpected character''))"
    by (simp add: errorTracker_def)
  show ?thesis
    using shouldStopTracking_linebreak_tabstop [OF a1 b1, of 1]
      shouldStopTracking_linebreak_tabstop [OF a2 b2, of 1]
    by simp
qed

section \<open>Properties of the context resolver\<close>

lemma last_of_eq: "last_of xs = (if xs = [] then None else Some (last xs))"
  by (simp add: last_of_def last_conv_nth)

text \<open>
  C1, as amended. Whenever the stylesheet branch allows activation, the resolved context
  name is: the name of the nearest ancestor when the current token is a property value
  and there is an ancestor; the section marker when the current token is a selector with
  no ancestor, that is a selector at the top level; the global marker in every other
  allowed case, so also for a selector in the body of another.
\<close>

theorem getCSSActivationContext_name:
  assumes "getCSSActivationContext h editor pos syn ctx = Some cfg"
    and "css_current ctx = Some current"
  shows "cfg_context cfg =
           Some \<lparr>ctx_name =
                   (if css_type current = PropertyValue \<and> css_ancestors ctx \<noteq> []
                    then css_name (last (css_ancestors ctx))
                    else if css_type current = Selector \<and> css_ancestors ctx = []
                    then CSSAbbreviationScope_Section
                    else CSSAbbreviationScope_Global),
                 ctx_attributes = None\<rparr>"
  using assms
  by (auto simp: getCSSActivationContext_def getCSSAbbreviationContext_def last_of_eq Let_def
      split: if_splits)

text \<open>The caret in the value of \<^verbatim>\<open>color\<close> gives the name \<^verbatim>\<open>color\<close>.\<close>

theorem getCSSActivationContext_name_witness:
  "map_option cfg_context
     (getCSSActivationContext (demo_host (Inr value_context) not_queried)
        (editorOf ''a{color:red}'' 11 ''css'') 11 (js ''css'') value_context)
   = Some (Some \<lparr>ctx_name = js ''color'', ctx_attributes = None\<rparr>)"
proof -
  let ?h = "demo_host (Inr value_context) not_queried"
  let ?ed = "editorOf ''a{color:red}'' 11 ''css''"
  obtain cfg where run: "getCSSActivationContext ?h ?ed 11 (js ''css'') value_context = Some cfg"
    by (simp add: getCSSActivationContext_def value_context_def)
  have cur: "css_current value_context =
               Some \<lparr>css_name = js ''red'', css_type = PropertyValue, css_range = (8, 11)\<rparr>"
    by (simp add: value_context_def)
  have "cfg_context cfg = Some \<lparr>ctx_name = js ''color'', ctx_attributes = None\<rparr>"
    using getCSSActivationContext_name [OF run cur] by (simp add: value_context_def)
  then show ?thesis
    using run by simp
qed

text \<open>The first character of a selector in the body of another selector gives the
  global marker, and the first character typed on an empty line at the top level gives
  the section marker: the other way round.\<close>

theorem getCSSActivationContext_name_counterexample:
  "map_option cfg_context
     (getCSSActivationContext (demo_host (Inr nested_selector) not_queried)
        (editorOf ''a{b}'' 3 ''css'') 3 (js ''css'') nested_selector)
     = Some (Some \<lparr>ctx_name = CSSAbbreviationScope_Global, ctx_attributes = None\<rparr>)
   \<and> map_option cfg_context
     (getCSSActivationContext (demo_host (Inr top_selector) not_queried)
        (editorOf ''b'' 1 ''css'') 1 (js ''css'') top_selector)
     = Some (Some \<lparr>ctx_name = CSSAbbreviationScope_Section, ctx_attributes = None\<rparr>)
   \<and> CSSAbbreviationScope_Global \<noteq> CSSAbbreviationScope_Section"
  by (simp add: getCSSActivationContext_def getCSSAbbreviationContext_def isTypingBeforeSelector_def
      nested_selector_def top_selector_def last_of_def substr_def trim_def isSpace_def isLineBreak_def
      js_def CSSAbbreviationScope_Global_def CSSAbbreviationScope_Section_def editorOf_def)

lemma firstTypeAttribute_find:
  "firstTypeAttribute h attrs =
     (case find (\<lambda>attr. attr_name attr = js ''type'') attrs of
        Some attr \<Rightarrow> attributeValue h attr | None \<Rightarrow> None)"
  by (induction attrs) auto

lemma getEmbeddedStyleSyntax_eq: "getEmbeddedStyleSyntax h code ctx = styleTypeAttribute h code ctx"
  by (simp add: getEmbeddedStyleSyntax_def styleTypeAttribute_def last_of_eq firstTypeAttribute_find)

text \<open>
  C2, as amended. In a markup document, where the HTML structural query reports an
  embedded stylesheet context, activation resolution is the stylesheet branch on that
  context, and the syntax it uses is the value of the \<^verbatim>\<open>type\<close> attribute of the enclosing
  \<^verbatim>\<open>style\<close> element when that value is present and not empty, and otherwise the syntax of
  the document itself, which is a markup syntax.
\<close>

theorem getActivationContext_embedded_style:
  assumes "\<not> isCSS h (docSyntax h ed)" and "isHTML h (docSyntax h ed)"
    and "getHTMLContext h (getContent ed) pos (isXML h (docSyntax h ed)) = Inr ctx"
    and "html_css ctx = Some css"
  shows "getActivationContext h ed pos =
           Inr (getCSSActivationContext h ed pos
                  (case styleTypeAttribute h (getContent ed) ctx of
                     Some v \<Rightarrow> (if v = [] then docSyntax h ed else v)
                   | None \<Rightarrow> docSyntax h ed)
                  css)"
  using assms
  by (simp add: getActivationContext_def Let_def getEmbeddedStyleSyntax_eq or_else_def)

text \<open>With \<^verbatim>\<open>type=scss\<close> on the \<^verbatim>\<open>style\<close> element the stylesheet context is resolved
  for \<^verbatim>\<open>scss\<close>.\<close>

theorem getActivationContext_embedded_style_witness:
  "map_sum id (map_option cfg_syntax)
     (getActivationContext (style_host typed_style_element)
        (editorOf ''<style type=scss>p</style>'' 18 ''html'') 18)
   = Inr (Some (js ''scss''))"
proof -
  let ?h = "style_host typed_style_element"
  let ?ed = "editorOf ''<style type=scss>p</style>'' 18 ''html''"
  let ?css = "\<lparr>css_ancestors = [],
      css_current = Some \<lparr>css_name = js ''p'', css_type = Selector, css_range = (17, 18)\<rparr>,
      css_inline = False\<rparr>"
  have a1: "\<not> isCSS ?h (docSyntax ?h ?ed)" and a2: "isHTML ?h (docSyntax ?h ?ed)"
    by (simp_all add: style_host_def demo_host_def editorOf_def js_def)
  have a3: "getHTMLContext ?h (getContent ?ed) 18 (isXML ?h (docSyntax ?h ?ed)) = Inr typed_style_element"
    by (simp add: style_host_def demo_host_def)
  have a4: "html_css typed_style_element = Some ?css"
    by (simp add: typed_style_element_def)
  have attr: "styleTypeAttribute ?h (getContent ?ed) typed_style_element = Some (js ''scss'')"
    by (simp add: styleTypeAttribute_def typed_style_element_def parentAttributes_def
        getContent_def editorOf_def slice_def slice_bound_def style_host_def demo_host_def js_def)
  have "getActivationContext ?h ?ed 18 =
          Inr (getCSSActivationContext ?h ?ed 18 (js ''scss'') ?css)"
    using getActivationContext_embedded_style [OF a1 a2 a3 a4] attr by (simp add: js_def)
  then show ?thesis
    by (simp add: getCSSActivationContext_def isTypingBeforeSelector_def substr_def editorOf_def
        trim_def isSpace_def isLineBreak_def js_def)
qed

text \<open>With no \<^verbatim>\<open>type\<close> attribute the stylesheet context is resolved for \<^verbatim>\<open>html\<close>, the
  syntax of the document, which is not a stylesheet syntax.\<close>

theorem getActivationContext_embedded_style_counterexample:
  "getActivationContext (style_host style_element) (editorOf ''<style>p</style>'' 8 ''html'') 8
     = Inr (Some \<lparr>cfg_syntax = js ''html'', cfg_type = stylesheet,
                  cfg_context = Some \<lparr>ctx_name = CSSAbbreviationScope_Section, ctx_attributes = None\<rparr>,
                  cfg_options = ()\<rparr>)
   \<and> \<not> isCSS (style_host style_element) (js ''html'')
   \<and> styleTypeAttribute (style_host style_element) (js ''<style>p</style>'') style_element = None"
  by (simp add: getActivationContext_def getCSSActivationContext_def getCSSAbbreviationContext_def
      style_host_def demo_host_def style_element_def editorOf_def js_def getContent_def
      getEmbeddedStyleSyntax_def styleTypeAttribute_def
      last_of_def or_else_def isTypingBeforeSelector_def substr_def trim_def isSpace_def
      isLineBreak_def parentAttributes_def slice_def slice_bound_def CSSAbbreviationScope_Section_def)



section \<open>Properties of the event handlers\<close>

text \<open>
  C9, as amended. A selection change never touches the tracked abbreviation. It sets the
  remembered caret position to the caret when completions are enabled, the flag being
  read at the event; when they are disabled it changes nothing.
\<close>

theorem onDidChangeSelection_effect:
  "tracked (onDidChangeSelection h ed st) = tracked st
   \<and> lastPos (onDidChangeSelection h ed st) =
       (if enable_completions h then Some (getCaret ed) else lastPos st)"
  by (simp add: onDidChangeSelection_def isEnabled_def)

text \<open>With completions disabled, the caret moves from 1 to 3 and the remembered
  position stays 1.\<close>

theorem onDidChangeSelection_effect_counterexample:
  "lastPos (onDidChangeSelection ((demo_host not_queried not_queried)\<lparr>enable_completions := False\<rparr>)
      (editorOf ''div'' 3 ''html'') \<lparr>lastPos = Some 1, tracked = None\<rparr>) = Some 1
   \<and> getCaret (editorOf ''div'' 3 ''html'') = 3"
  by (simp add: onDidChangeSelection_def isEnabled_def getCaret_def demo_host_def editorOf_def)

text \<open>A change that ends without an exception remembers the caret, and leaves no
  tracker that should stop there.\<close>

lemma onDidChange_returns:
  assumes "onDidChange h ed st = (None, st')"
  shows "lastPos st' = Some (getCaret ed)
         \<and> (case tracked st' of Some t \<Rightarrow> \<not> shouldStopTracking t (getCaret ed) | None \<Rightarrow> True)"
  using assms
  by (auto simp: onDidChange_def Let_def stopTracking_def split: sum.splits option.splits if_splits)

text \<open>
  C10. \<^verbatim>\<open>extractTracker\<close> returns no tracker exactly when \<^verbatim>\<open>extract\<close> finds no
  abbreviation. When \<^verbatim>\<open>extract\<close> finds one, the activation context is resolved at its
  start plus one, and whatever that gives, a context or none, a tracker is started over
  the extracted span, not forced, with the prefix length as offset and with that result
  as its activation options.
\<close>

theorem extractTracker_starts:
  "(extractTracker h ed cc = Inr None \<longleftrightarrow>
      emmet_extract h (getContent ed) (position cc) (document_syntax ed)
        (if isJSX h (document_syntax ed) then JSX_PREFIX h else []) = None)
   \<and> (\<forall>a opts.
        emmet_extract h (getContent ed) (position cc) (document_syntax ed)
          (if isJSX h (document_syntax ed) then JSX_PREFIX h else []) = Some a
        \<longrightarrow> getActivationContext h ed (ex_start a + 1) = Inr opts
        \<longrightarrow> (\<exists>tr. extractTracker h ed cc = Inr (Some tr)
                \<and> tr_range tr = (ex_start a, ex_end a)
                \<and> \<not> forced tr
                \<and> offset tr = int (length (if isJSX h (document_syntax ed) then JSX_PREFIX h else []))
                \<and> activationOptions tr = opts))"
  by (auto simp: extractTracker_def Let_def startTracking_def split: option.splits sum.splits)

text \<open>In \<^verbatim>\<open><div\<close> the abbreviation \<^verbatim>\<open>div\<close> is extracted at \<open>[1, 4)\<close>; position 2 is
  inside a tag, where no activation context exists, and the tracker is started all the
  same, without activation options.\<close>

theorem extractTracker_starts_witness:
  "\<exists>tr. extractTracker
          ((demo_host not_queried (Inr inside_tag))
             \<lparr>emmet_extract := \<lambda>code pos syn prefix.
                  Some \<lparr>ex_start = 1, ex_end = 4, ex_abbr = js ''div''\<rparr>\<rparr>)
          (editorOf ''<div'' 4 ''html'') \<lparr>position = 4\<rparr> = Inr (Some tr)
        \<and> tr_range tr = (1, 4) \<and> \<not> forced tr \<and> offset tr = 0 \<and> activationOptions tr = None"
proof -
  let ?h = "(demo_host not_queried (Inr inside_tag))
             \<lparr>emmet_extract := \<lambda>code pos syn prefix.
                  Some \<lparr>ex_start = 1, ex_end = 4, ex_abbr = js ''div''\<rparr>\<rparr>"
  let ?ed = "editorOf ''<div'' 4 ''html''"
  let ?a = "\<lparr>ex_start = 1, ex_end = 4, ex_abbr = js ''div''\<rparr>"
  have x: "emmet_extract ?h (getContent ?ed) (position \<lparr>position = 4\<rparr>) (document_syntax ?ed)
             (if isJSX ?h (document_syntax ?ed) then JSX_PREFIX ?h else []) = Some ?a"
    by (simp add: demo_host_def)
  have r: "getActivationContext ?h ?ed (ex_start ?a + 1) = Inr None"
    by (simp add: getActivationContext_def demo_host_def editorOf_def js_def inside_tag_def)
  have j: "\<not> isJSX ?h (document_syntax ?ed)"
    by (simp add: demo_host_def editorOf_def js_def)
  show ?thesis
    using extractTracker_starts [of ?h ?ed "\<lparr>position = 4\<rparr>"] x r j by auto
qed

section \<open>Properties of boundary detection\<close>

lemma substr_one:
  assumes "0 \<le> pos"
  shows "substr ed (pos, pos + 1) = [c] \<longleftrightarrow> js_index (content ed) pos = Some [c]"
proof -
  have n: "nat (pos + 1) - nat pos = 1"
    using assms by simp
  show ?thesis
  proof (cases "nat pos < length (content ed)")
    case True
    then have "drop (nat pos) (content ed) = content ed ! nat pos # drop (Suc (nat pos)) (content ed)"
      by (simp add: Cons_nth_drop_Suc)
    moreover have "pos < int (length (content ed))"
      using True assms by simp
    ultimately show ?thesis
      using assms n by (simp add: substr_def js_index_def)
  next
    case False
    moreover have "\<not> pos < int (length (content ed))"
      using False assms by simp
    ultimately show ?thesis
      by (simp add: substr_def js_index_def)
  qed
qed

lemma window_eq:
  "substr ed (max 0 (pos - 2), pos) = take (nat pos - (nat pos - 2)) (drop (nat pos - 2) (content ed))"
proof -
  have "nat (max 0 (pos - 2)) = nat pos - 2"
    by simp
  then show ?thesis
    by (simp add: substr_def)
qed

lemma substr_last:
  assumes "substr ed (max 0 (pos - 2), pos) \<noteq> []" and "pos \<le> int (length (content ed))"
  shows "js_index (substr ed (max 0 (pos - 2), pos))
           (int (length (substr ed (max 0 (pos - 2), pos))) - 1)
         = js_index (content ed) (pos - 1)"
proof -
  define p where "p = nat pos"
  define n where "n = p - (p - 2)"
  let ?w = "substr ed (max 0 (pos - 2), pos)"
  have w: "?w = take n (drop (p - 2) (content ed))"
    unfolding n_def p_def by (rule window_eq)
  have n0: "0 < n"
    using assms(1) unfolding w by (cases n) auto
  then have p0: "0 < p"
    unfolding n_def by simp
  have ple: "p \<le> length (content ed)"
    using assms(2) unfolding p_def by simp
  have len: "length ?w = n"
    unfolding w using ple by (simp add: n_def)
  have idx: "p - 2 + (n - 1) = p - 1"
    using p0 unfolding n_def by arith
  have "?w ! (n - 1) = content ed ! (p - 2 + (n - 1))"
    unfolding w using n0 ple by (simp add: n_def)
  then have nth: "?w ! (n - 1) = content ed ! (p - 1)"
    using idx by simp
  have i1: "nat (int n - 1) = n - 1"
    by simp
  have i2: "nat (pos - 1) = p - 1"
    unfolding p_def by simp
  have pp: "0 < pos"
    using p0 unfolding p_def by simp
  show ?thesis
    using n0 pp assms(2) nth by (simp add: js_index_def len i1 i2)
qed

lemma map_of_pairs:
  "map_of pairs [x] =
     (if x = 0x7B then Some [0x7D] else if x = 0x5B then Some [0x5D]
      else if x = 0x28 then Some [0x29] else None)"
  by (simp add: pairs_def js_def)

lemma pairedEnd_buffer:
  assumes "substr ed (max 0 (pos - 2), pos) \<noteq> []" and "pos \<le> int (length (content ed))"
  shows "pairedEnd ed pos (substr ed (max 0 (pos - 2), pos)) =
           (if (js_index (content ed) (pos - 1) = Some (js ''{'') \<and> js_index (content ed) pos = Some (js ''}''))
             \<or> (js_index (content ed) (pos - 1) = Some (js ''['') \<and> js_index (content ed) pos = Some (js '']''))
             \<or> (js_index (content ed) (pos - 1) = Some (js ''('') \<and> js_index (content ed) pos = Some (js '')''))
            then pos + 1 else pos)"
proof -
  have pos: "0 < pos"
    using assms(1) by (cases "0 < pos") (auto simp: substr_def)
  then have p0: "0 \<le> pos" by simp
  obtain x where x: "js_index (content ed) (pos - 1) = Some [x]"
    using pos assms(2) by (simp add: js_index_def)
  show ?thesis
    unfolding pairedEnd_def substr_last [OF assms] x
    by (simp add: map_of_pairs substr_one [OF p0] js_def)
qed

lemma detectStart_none:
  assumes "substr ed (max 0 (pos - 2), pos) = []"
  shows "detectStart h ed pos = (-1, 0)"
  by (simp add: detectStart_def assms reWordBound_def)

lemma detectStart_window:
  assumes "0 \<le> fst (detectStart h ed pos)"
  shows "substr ed (max 0 (pos - 2), pos) \<noteq> []"
proof
  assume "substr ed (max 0 (pos - 2), pos) = []"
  then have "detectStart h ed pos = (-1, 0)"
    by (rule detectStart_none)
  then show False
    using assms by simp
qed

lemma startAbbreviationTracking_Some:
  assumes "startAbbreviationTracking h ed pos = Inr (Some tr)"
  shows "0 \<le> fst (detectStart h ed pos)
         \<and> tr_range tr = (fst (detectStart h ed pos), pairedEnd ed pos (substr ed (max 0 (pos - 2), pos)))
         \<and> offset tr = snd (detectStart h ed pos)"
proof -
  obtain start offs where d: "detectStart h ed pos = (start, offs)"
    by (cases "detectStart h ed pos")
  let ?endPos = "pairedEnd ed pos (substr ed (max 0 (pos - 2), pos))"
  have unfolded: "startAbbreviationTracking h ed pos =
      (if start \<ge> 0 then
         (case getActivationContext h ed pos of
            Inl e \<Rightarrow> Inl e
          | Inr None \<Rightarrow> Inr None
          | Inr (Some opts) \<Rightarrow>
              (if cfg_type opts = stylesheet \<and> \<not> reStylesheetWordBound (substr ed (max 0 (pos - 2), pos))
               then Inr None
               else Inr (Some (startTracking h ed start ?endPos
                                 \<lparr>p_offset = offs, p_options = Some opts, p_forced = None\<rparr>))))
       else Inr None)"
    by (simp add: startAbbreviationTracking_def d Let_def)
  have s: "start \<ge> 0"
    using assms unfolding unfolded by (cases "start \<ge> 0") simp_all
  obtain opts where tr: "tr = startTracking h ed start ?endPos
                                 \<lparr>p_offset = offs, p_options = Some opts, p_forced = None\<rparr>"
    using assms s unfolding unfolded
    by (cases "getActivationContext h ed pos") (auto split: option.splits if_splits)
  show ?thesis
    using s d by (simp add: tr startTracking_def)
qed

text \<open>
  C7. Let boundary detection find a span start, with the caret inside the buffer. If the
  character before the caret is \<^verbatim>\<open>{\<close>, \<^verbatim>\<open>[\<close> or \<^verbatim>\<open>(\<close> and the character after the caret is
  its closer, the end of the span is the caret plus one; otherwise it is the caret. That
  is the end computed for the candidate, and the end of the range of the tracker that
  \<^verbatim>\<open>startAbbreviationTracking\<close> returns.
\<close>

theorem startAbbreviationTracking_paired_end:
  assumes "0 \<le> fst (detectStart h ed pos)"
    and "pos \<le> int (length (getContent ed))"
  shows "(let before = js_index (getContent ed) (pos - 1);
              after = js_index (getContent ed) pos;
              endPos = (if (before = Some (js ''{'') \<and> after = Some (js ''}''))
                           \<or> (before = Some (js ''['') \<and> after = Some (js '']''))
                           \<or> (before = Some (js ''('') \<and> after = Some (js '')''))
                        then pos + 1 else pos)
          in pairedEnd ed pos (substr ed (max 0 (pos - 2), pos)) = endPos
             \<and> (\<forall>tr. startAbbreviationTracking h ed pos = Inr (Some tr) \<longrightarrow>
                   snd (tr_range tr) = endPos))"
proof -
  have w: "substr ed (max 0 (pos - 2), pos) \<noteq> []"
    using assms(1) by (rule detectStart_window)
  have le: "pos \<le> int (length (content ed))"
    using assms(2) by (simp add: getContent_def)
  have "snd (tr_range tr) = pairedEnd ed pos (substr ed (max 0 (pos - 2), pos))"
    if "startAbbreviationTracking h ed pos = Inr (Some tr)" for tr
    using startAbbreviationTracking_Some [OF that] by simp
  then show ?thesis
    unfolding getContent_def Let_def using pairedEnd_buffer [OF w le] by simp
qed

text \<open>In \<^verbatim>\<open>()\<close> with the caret after the opening parenthesis the tracked range is
  \<open>[0, 2)\<close>; in \<^verbatim>\<open>(x\<close> it is \<open>[0, 1)\<close>.\<close>

theorem startAbbreviationTracking_paired_end_witness:
  "(\<exists>tr. startAbbreviationTracking (demo_host not_queried (Inr between_tags))
            (editorOf ''()'' 1 ''html'') 1 = Inr (Some tr)
         \<and> tr_range tr = (0, 2))
   \<and> (\<exists>tr. startAbbreviationTracking (demo_host not_queried (Inr between_tags))
            (editorOf ''(x'' 1 ''html'') 1 = Inr (Some tr)
         \<and> tr_range tr = (0, 1))"
proof -
  let ?h = "demo_host not_queried (Inr between_tags)"
  let ?e1 = "editorOf ''()'' 1 ''html''"
  let ?e2 = "editorOf ''(x'' 1 ''html''"
  have ev: "substr (editorOf buf 1 ''html'') (max 0 (1 - 2), 1) = take 1 (js buf)" for buf
    by (simp add: substr_def editorOf_def)
  have ctx: "getActivationContext ?h (editorOf buf 1 ''html'') 1 =
               Inr (Some \<lparr>cfg_syntax = js ''html'', cfg_type = markup, cfg_context = None,
                           cfg_options = ()\<rparr>)" for buf
    by (simp add: getActivationContext_def demo_host_def editorOf_def js_def between_tags_def
        getMarkupAbbreviationContext_def last_of_def)
  have det: "detectStart ?h (editorOf buf 1 ''html'') 1 =
               (if reWordBound (take 1 (js buf)) then (0, 0) else (-1, 0))" for buf
    unfolding detectStart_def ev by (simp add: demo_host_def editorOf_def js_def)
  have rw: "reWordBound (take 1 (js ''()''))" "reWordBound (take 1 (js ''(x''))"
    by (simp_all add: js_def reWordBound_def isAbbrStartChar_def)
  have d1: "0 \<le> fst (detectStart ?h ?e1 1)" and d2: "0 \<le> fst (detectStart ?h ?e2 1)"
    unfolding det using rw by simp_all
  obtain t1 where r1: "startAbbreviationTracking ?h ?e1 1 = Inr (Some t1)"
    and s1: "fst (tr_range t1) = 0"
    unfolding startAbbreviationTracking_def ev det ctx using rw
    by (simp add: startTracking_def Let_def)
  obtain t2 where r2: "startAbbreviationTracking ?h ?e2 1 = Inr (Some t2)"
    and s2: "fst (tr_range t2) = 0"
    unfolding startAbbreviationTracking_def ev det ctx using rw
    by (simp add: startTracking_def Let_def)
  have l1: "1 \<le> int (length (getContent ?e1))" and l2: "1 \<le> int (length (getContent ?e2))"
    by (simp_all add: getContent_def editorOf_def js_def)
  have "snd (tr_range t1) = 2"
    using startAbbreviationTracking_paired_end [OF d1 l1] r1
    by (simp add: getContent_def editorOf_def js_def js_index_def Let_def)
  moreover have "snd (tr_range t2) = 1"
    using startAbbreviationTracking_paired_end [OF d2 l2] r2
    by (simp add: getContent_def editorOf_def js_def js_index_def Let_def)
  ultimately show ?thesis
    using r1 r2 s1 s2 by (simp add: prod_eq_iff)
qed

text \<open>In \<^verbatim>\<open>foo()\<close> with the caret after the opening parenthesis, in a document that is
  not JSX, the window is \<^verbatim>\<open>o(\<close>: the letter is no word bound and no start is found.\<close>

lemma detectStart_after_word:
  "detectStart (demo_host not_queried (Inr between_tags)) (editorOf ''foo()'' 4 ''html'') 4
   = (-1, 0)"
  by (simp add: detectStart_def substr_def editorOf_def demo_host_def js_def reWordBound_def
      isWordBoundChar_def isSpace_def)

lemma window_two:
  assumes "length (substr ed (max 0 (pos - 2), pos)) = 2"
  shows "2 \<le> pos"
proof -
  have "length (substr ed (max 0 (pos - 2), pos)) \<le> nat pos - (nat pos - 2)"
    unfolding window_eq by simp
  then show ?thesis
    using assms by simp
qed

lemma js_index_two:
  "js_index [x, y] 0 = Some [x]" "js_index [x, y] 1 = Some [y]"
  by (simp_all add: js_index_def)

lemma detectStart_JSX_eq:
  assumes "isJSX h (docSyntax h ed)"
  shows "detectStart h ed pos =
           (if length (substr ed (max 0 (pos - 2), pos)) = 2
               \<and> (\<exists>c. substr ed (max 0 (pos - 2), pos) = JSX_PREFIX h @ [c] \<and> isJSXAbbrStartChar c)
            then (pos - 2, int (length (JSX_PREFIX h))) else (-1, 0))"
proof (cases "length (substr ed (max 0 (pos - 2), pos)) = 2")
  case True
  then obtain x y where w: "substr ed (max 0 (pos - 2), pos) = [x, y]"
    by (auto simp: length_Suc_conv numeral_2_eq_2)
  have "(\<exists>c. [x, y] = JSX_PREFIX h @ [c] \<and> isJSXAbbrStartChar c) \<longleftrightarrow>
          (JSX_PREFIX h = [x] \<and> isJSXAbbrStartChar y)"
    by (auto simp: append_eq_Cons_conv)
  then show ?thesis
    using assms w by (auto simp: detectStart_def js_index_two reJSXAbbrStart_def)
next
  case False
  then show ?thesis
    using assms by (simp add: detectStart_def)
qed

text \<open>
  C8. In a document of JSX syntax a span start is found exactly when the window before
  the caret has two characters and is the JSX trigger prefix followed by one character
  of the class \<^verbatim>\<open>[a-zA-Z.#[(]\<close>. The start is then the caret minus two and the offset is
  the length of the trigger prefix, and so they are in the tracker that
  \<^verbatim>\<open>startAbbreviationTracking\<close> returns.
\<close>

theorem detectStart_JSX_prefix:
  assumes "isJSX h (docSyntax h ed)"
  shows "(0 \<le> fst (detectStart h ed pos)) =
           (length (substr ed (max 0 (pos - 2), pos)) = 2
            \<and> (\<exists>c. substr ed (max 0 (pos - 2), pos) = JSX_PREFIX h @ [c] \<and> isJSXAbbrStartChar c))
         \<and> (0 \<le> fst (detectStart h ed pos) \<longrightarrow>
              detectStart h ed pos = (pos - 2, int (length (JSX_PREFIX h))))
         \<and> (\<forall>tr. startAbbreviationTracking h ed pos = Inr (Some tr) \<longrightarrow>
              fst (tr_range tr) = pos - 2 \<and> offset tr = int (length (JSX_PREFIX h)))"
proof -
  let ?match = "length (substr ed (max 0 (pos - 2), pos)) = 2
            \<and> (\<exists>c. substr ed (max 0 (pos - 2), pos) = JSX_PREFIX h @ [c] \<and> isJSXAbbrStartChar c)"
  have d: "detectStart h ed pos = (if ?match then (pos - 2, int (length (JSX_PREFIX h))) else (-1, 0))"
    using assms by (rule detectStart_JSX_eq)
  have a: "(0 \<le> fst (detectStart h ed pos)) = ?match"
  proof (cases ?match)
    case True
    then have "2 \<le> pos"
      using window_two by blast
    moreover have "detectStart h ed pos = (pos - 2, int (length (JSX_PREFIX h)))"
      unfolding d using True by (rule if_P)
    ultimately show ?thesis
      using True by simp
  next
    case False
    have "detectStart h ed pos = (-1, 0)"
      unfolding d using False by (rule if_not_P)
    then show ?thesis
      using False by simp
  qed
  have b: "0 \<le> fst (detectStart h ed pos) \<longrightarrow>
              detectStart h ed pos = (pos - 2, int (length (JSX_PREFIX h)))"
  proof
    assume "0 \<le> fst (detectStart h ed pos)"
    then have m: ?match
      using a by blast
    show "detectStart h ed pos = (pos - 2, int (length (JSX_PREFIX h)))"
      unfolding d using m by (rule if_P)
  qed
  have c: "fst (tr_range tr) = pos - 2 \<and> offset tr = int (length (JSX_PREFIX h))"
    if "startAbbreviationTracking h ed pos = Inr (Some tr)" for tr
    using startAbbreviationTracking_Some [OF that] b by simp
  show ?thesis
    using a b c by blast
qed


text \<open>In a JSX document, \<^verbatim>\<open><d\<close> before the caret at 2 starts a span at 0 with offset 1.\<close>

theorem detectStart_JSX_prefix_witness:
  "0 \<le> fst (detectStart (demo_host not_queried (Inr between_tags)) (editorOf ''<d'' 2 ''jsx'') 2)
   \<and> detectStart (demo_host not_queried (Inr between_tags)) (editorOf ''<d'' 2 ''jsx'') 2 = (0, 1)
   \<and> (\<exists>tr. startAbbreviationTracking (demo_host not_queried (Inr between_tags))
               (editorOf ''<d'' 2 ''jsx'') 2 = Inr (Some tr)
            \<and> fst (tr_range tr) = 0 \<and> offset tr = 1)"
proof -
  let ?h = "demo_host not_queried (Inr between_tags)"
  let ?ed = "editorOf ''<d'' 2 ''jsx''"
  have j: "isJSX ?h (docSyntax ?h ?ed)"
    by (simp add: demo_host_def editorOf_def)
  have w: "substr ?ed (max 0 (2 - 2), 2) = [0x3C, 0x64]"
    by (simp add: substr_def editorOf_def js_def)
  have p: "JSX_PREFIX ?h = [0x3C]"
    by (simp add: demo_host_def js_def)
  have m: "length (substr ?ed (max 0 (2 - 2), 2)) = 2
           \<and> (\<exists>c. substr ?ed (max 0 (2 - 2), 2) = JSX_PREFIX ?h @ [c] \<and> isJSXAbbrStartChar c)"
    unfolding w p by (simp add: isJSXAbbrStartChar_def isAlpha_def)
  note inst = detectStart_JSX_prefix [OF j, of 2]
  have s: "0 \<le> fst (detectStart ?h ?ed 2)"
    using inst m by blast
  then have d: "detectStart ?h ?ed 2 = (0, 1)"
    using inst p by simp
  have ctx: "getActivationContext ?h ?ed 2 =
               Inr (Some \<lparr>cfg_syntax = js ''jsx'', cfg_type = markup, cfg_context = None,
                           cfg_options = ()\<rparr>)"
    by (simp add: getActivationContext_def demo_host_def editorOf_def js_def between_tags_def
        getMarkupAbbreviationContext_def last_of_def)
  obtain tr where r: "startAbbreviationTracking ?h ?ed 2 = Inr (Some tr)"
    unfolding startAbbreviationTracking_def d ctx by (simp add: Let_def)
  then have "fst (tr_range tr) = 0 \<and> offset tr = 1"
    using inst p by simp
  then show ?thesis
    using s d r by blast
qed


end
